theory Spec2Isabelle
  imports Main "HOL-Library.AList"
begin

section \<open>Shared values\<close>

text \<open>
  The three controllers of \<^verbatim>\<open>packages/core/src/controllers\<close> (Publisher,
  JsonRpcHistory, Expirer) are embedded as functions on explicit state records. A
  JavaScript \<^verbatim>\<open>Map\<close> keeps its keys in insertion order, so each index is an
  association list: \<^verbatim>\<open>Map.set\<close> is \<open>AList.update\<close> (an existing key keeps its place, a
  new key goes to the end), \<^verbatim>\<open>Map.get\<close> is \<open>map_of\<close>, \<^verbatim>\<open>Map.delete\<close> is
  \<open>AList.delete\<close>. Every \<^verbatim>\<open>throw\<close> is a value of type \<open>error\<close>; \<open>Failure\<close>
  stands for an error of a collaborator (the transport, the store). Of the logger only the
  \<^verbatim>\<open>logger.error\<close> calls are recorded (in the fields \<open>h_logged\<close>, \<open>x_logged\<close> and
  \<open>p_logged\<close>); the \<^verbatim>\<open>debug\<close>, \<^verbatim>\<open>trace\<close> and \<^verbatim>\<open>info\<close> calls change nothing the
  program reads. An operation runs from the state it is called in up to its result; where it
  awaits a collaborator, the collaborator's answer is an argument. Several operations
  interleaving at their \<^verbatim>\<open>await\<close>s are outside the model.
\<close>

datatype json =
    JNull
  | JBool bool
  | JNum int
  | JStr string
  | JArr "json list"
  | JObj "(string \<times> json) list"

text \<open>JavaScript truthiness of an optional JSON value (\<open>None\<close> is \<^verbatim>\<open>undefined\<close>).\<close>

fun truthy :: "json option \<Rightarrow> bool" where
  "truthy None = False"
| "truthy (Some JNull) = False"
| "truthy (Some (JBool b)) = b"
| "truthy (Some (JNum n)) = (n \<noteq> 0)"
| "truthy (Some (JStr s)) = (s \<noteq> [])"
| "truthy (Some (JArr xs)) = True"
| "truthy (Some (JObj kvs)) = True"

datatype error =
    NOT_INITIALIZED
  | NO_MATCHING_ID
  | MISMATCHED_TOPIC
  | RESTORE_WILL_OVERRIDE
  | Failure string

text \<open>
  The state of the promise an \<^verbatim>\<open>async\<close> function returns, once the function has run as far as
  it can: \<open>Pending\<close> when it is suspended on a promise nothing has settled yet.
\<close>

datatype 'a promise = Pending | Rejected error | Fulfilled 'a

section \<open>JsonRpcHistory\<close>

record RequestArguments =
  arg_method :: string
  arg_params :: json

text \<open>The \<^verbatim>\<open>JsonRpcRequest\<close> handed to \<^verbatim>\<open>set\<close>; its \<^verbatim>\<open>params\<close> may be missing.\<close>

record JsonRpcRequest =
  req_id :: int
  req_jsonrpc :: string
  req_method :: string
  req_params :: "json option"

text \<open>
  \<^verbatim>\<open>JsonRpcResponse = JsonRpcResult | JsonRpcError\<close>; \<^verbatim>\<open>isJsonRpcError\<close> of
  \<^verbatim>\<open>@walletconnect/jsonrpc-utils\<close> tells the two shapes apart.
\<close>

datatype JsonRpcResponse =
    JsonRpcResult int json
  | JsonRpcError int json

fun resp_id :: "JsonRpcResponse \<Rightarrow> int" where
  "resp_id (JsonRpcResult i r) = i"
| "resp_id (JsonRpcError i e) = i"

fun isJsonRpcError :: "JsonRpcResponse \<Rightarrow> bool" where
  "isJsonRpcError (JsonRpcResult i r) = False"
| "isJsonRpcError (JsonRpcError i e) = True"

fun resp_result :: "JsonRpcResponse \<Rightarrow> json option" where
  "resp_result (JsonRpcResult i r) = Some r"
| "resp_result (JsonRpcError i e) = None"

fun resp_error :: "JsonRpcResponse \<Rightarrow> json option" where
  "resp_error (JsonRpcResult i r) = None"
| "resp_error (JsonRpcError i e) = Some e"

text \<open>
  The object stored as \<^verbatim>\<open>record.response\<close>: \<^verbatim>\<open>{ error }\<close> or \<^verbatim>\<open>{ result }\<close>. A field
  that is \<open>None\<close> is a key the object does not have.
\<close>

record StoredResponse =
  result :: "json option"
  error :: "json option"

record JsonRpcRecord =
  rec_id :: int
  rec_topic :: string
  rec_request :: RequestArguments
  rec_chainId :: "string option"
  rec_response :: "StoredResponse option"

record RequestEvent =
  ev_topic :: string
  ev_request :: JsonRpcRequest
  ev_chainId :: "string option"

datatype history_event =
    History_created JsonRpcRecord
  | History_updated JsonRpcRecord
  | History_deleted JsonRpcRecord
  | History_sync
  | History_init

text \<open>
  The fields of the class, the durable store behind \<^verbatim>\<open>core.storage\<close> under the storage
  key (\<open>None\<close>: the key has no item), the number of \<^verbatim>\<open>persist\<close> calls that are
  suspended at their \<^verbatim>\<open>await\<close>, the events emitted so far and the errors logged so far.
\<close>

record JsonRpcHistory =
  records :: "(int \<times> JsonRpcRecord) list"
  h_cached :: "JsonRpcRecord list"
  h_storage :: "JsonRpcRecord list option"
  h_persisting :: nat
  h_events :: "history_event list"
  h_logged :: "error list"

definition JsonRpcHistory_new :: JsonRpcHistory where
  "JsonRpcHistory_new =
     \<lparr>records = [], h_cached = [], h_storage = None, h_persisting = 0, h_events = [],
      h_logged = []\<rparr>"

definition JsonRpcHistory_values :: "JsonRpcHistory \<Rightarrow> JsonRpcRecord list" where
  "JsonRpcHistory_values s = map snd (records s)"

definition JsonRpcHistory_keys :: "JsonRpcHistory \<Rightarrow> int list" where
  "JsonRpcHistory_keys s = map fst (records s)"

definition JsonRpcHistory_size :: "JsonRpcHistory \<Rightarrow> nat" where
  "JsonRpcHistory_size s = length (records s)"

text \<open>
  \<^verbatim>\<open>persist\<close> up to its \<^verbatim>\<open>await\<close>: the current values are handed to the store, which
  is taken to hold them from then on. The call is then suspended until the store answers.
\<close>

definition JsonRpcHistory_persist :: "JsonRpcHistory \<Rightarrow> JsonRpcHistory" where
  "JsonRpcHistory_persist s =
     s\<lparr>h_storage := Some (JsonRpcHistory_values s), h_persisting := Suc (h_persisting s)\<rparr>"

text \<open>
  \<^verbatim>\<open>events.emit\<close> together with the listeners of \<^verbatim>\<open>registerEventListeners\<close>, which the
  constructor registers: created, updated and deleted each start \<^verbatim>\<open>persist\<close>.
\<close>

fun JsonRpcHistory_emit :: "history_event \<Rightarrow> JsonRpcHistory \<Rightarrow> JsonRpcHistory" where
  "JsonRpcHistory_emit (History_created r) s =
     JsonRpcHistory_persist (s\<lparr>h_events := h_events s @ [History_created r]\<rparr>)"
| "JsonRpcHistory_emit (History_updated r) s =
     JsonRpcHistory_persist (s\<lparr>h_events := h_events s @ [History_updated r]\<rparr>)"
| "JsonRpcHistory_emit (History_deleted r) s =
     JsonRpcHistory_persist (s\<lparr>h_events := h_events s @ [History_deleted r]\<rparr>)"
| "JsonRpcHistory_emit ev s = s\<lparr>h_events := h_events s @ [ev]\<rparr>"

text \<open>
  \<^verbatim>\<open>persist\<close> after its \<^verbatim>\<open>await\<close>: one suspended call goes on and emits \<^verbatim>\<open>sync\<close>.
  This happens once the store has answered, so after every event of the synchronous run that
  started the write. \<open>JsonRpcHistory_settle\<close> lets every suspended call go on.
\<close>

definition JsonRpcHistory_persist_resume :: "JsonRpcHistory \<Rightarrow> JsonRpcHistory" where
  "JsonRpcHistory_persist_resume s =
     JsonRpcHistory_emit History_sync (s\<lparr>h_persisting := h_persisting s - 1\<rparr>)"

definition JsonRpcHistory_settle :: "JsonRpcHistory \<Rightarrow> JsonRpcHistory" where
  "JsonRpcHistory_settle s = (JsonRpcHistory_persist_resume ^^ h_persisting s) s"

text \<open>
  \<^verbatim>\<open>isInitialized\<close>: returns at once when the staging list \<^verbatim>\<open>cached\<close> is empty, and
  otherwise returns a promise that only a later \<^verbatim>\<open>init\<close> event resolves.
\<close>

definition JsonRpcHistory_isInitialized :: "JsonRpcHistory \<Rightarrow> unit promise" where
  "JsonRpcHistory_isInitialized s = (if h_cached s = [] then Fulfilled () else Pending)"

definition JsonRpcHistory_getRecord :: "int \<Rightarrow> JsonRpcHistory \<Rightarrow> JsonRpcRecord promise" where
  "JsonRpcHistory_getRecord i s =
     (case JsonRpcHistory_isInitialized s of
        Pending \<Rightarrow> Pending
      | Rejected e \<Rightarrow> Rejected e
      | Fulfilled u \<Rightarrow>
          (case map_of (records s) i of
             None \<Rightarrow> Rejected NO_MATCHING_ID
           | Some r \<Rightarrow> Fulfilled r))"

text \<open>The getter \<^verbatim>\<open>pending\<close>: the \<^verbatim>\<open>forEach\<close> over \<^verbatim>\<open>values\<close> that pushes onto \<^verbatim>\<open>requests\<close>.
  \<^verbatim>\<open>formatJsonRpcRequest\<close> belongs to \<^verbatim>\<open>@walletconnect/jsonrpc-utils\<close> and is a parameter.\<close>

definition pending_step ::
  "(string \<Rightarrow> json \<Rightarrow> int \<Rightarrow> JsonRpcRequest) \<Rightarrow> JsonRpcRecord \<Rightarrow> RequestEvent list \<Rightarrow> RequestEvent list" where
  "pending_step formatJsonRpcRequest r requests =
     (if rec_response r \<noteq> None then requests
      else requests @
        [\<lparr>ev_topic = rec_topic r,
          ev_request = formatJsonRpcRequest (arg_method (rec_request r)) (arg_params (rec_request r)) (rec_id r),
          ev_chainId = rec_chainId r\<rparr>])"

definition JsonRpcHistory_pending ::
  "(string \<Rightarrow> json \<Rightarrow> int \<Rightarrow> JsonRpcRequest) \<Rightarrow> JsonRpcHistory \<Rightarrow> RequestEvent list" where
  "JsonRpcHistory_pending formatJsonRpcRequest s =
     fold (pending_step formatJsonRpcRequest) (JsonRpcHistory_values s) []"

definition JsonRpcHistory_set ::
  "string \<Rightarrow> JsonRpcRequest \<Rightarrow> string option \<Rightarrow> JsonRpcHistory \<Rightarrow> unit promise \<times> JsonRpcHistory" where
  "JsonRpcHistory_set topic request chainId s =
     (case JsonRpcHistory_isInitialized s of
        Pending \<Rightarrow> (Pending, s)
      | Rejected e \<Rightarrow> (Rejected e, s)
      | Fulfilled u \<Rightarrow>
          if map_of (records s) (req_id request) \<noteq> None then (Fulfilled (), s)
          else
            let r = \<lparr>rec_id = req_id request,
                     rec_topic = topic,
                     rec_request = \<lparr>arg_method = req_method request,
                                    arg_params = (if truthy (req_params request)
                                              then the (req_params request) else JNull)\<rparr>,
                     rec_chainId = chainId,
                     rec_response = None\<rparr>
            in (Fulfilled (),
                JsonRpcHistory_emit (History_created r)
                  (s\<lparr>records := AList.update (rec_id r) r (records s)\<rparr>)))"

text \<open>
  \<^verbatim>\<open>resolve\<close> assigns \<^verbatim>\<open>record.response\<close> on the object it read from the map under
  \<^verbatim>\<open>response.id\<close>, which changes that entry in place, and then stores the same object under
  \<^verbatim>\<open>record.id\<close>.
\<close>

definition JsonRpcHistory_resolve ::
  "JsonRpcResponse \<Rightarrow> JsonRpcHistory \<Rightarrow> unit promise \<times> JsonRpcHistory" where
  "JsonRpcHistory_resolve response s =
     (case JsonRpcHistory_isInitialized s of
        Pending \<Rightarrow> (Pending, s)
      | Rejected e \<Rightarrow> (Rejected e, s)
      | Fulfilled u \<Rightarrow>
          if map_of (records s) (resp_id response) = None then (Fulfilled (), s)
          else
            (case JsonRpcHistory_getRecord (resp_id response) s of
               Pending \<Rightarrow> (Pending, s)
             | Rejected e \<Rightarrow> (Rejected e, s)
             | Fulfilled r \<Rightarrow>
                 if rec_response r \<noteq> None then (Fulfilled (), s)
                 else
                   let r' = r\<lparr>rec_response := Some
                              (if isJsonRpcError response
                               then \<lparr>result = None, error = resp_error response\<rparr>
                               else \<lparr>result = resp_result response, error = None\<rparr>)\<rparr>
                   in (Fulfilled (),
                       JsonRpcHistory_emit (History_updated r')
                         (s\<lparr>records := AList.update (rec_id r') r'
                                          (AList.update (resp_id response) r' (records s))\<rparr>))))"

definition JsonRpcHistory_get ::
  "string \<Rightarrow> int \<Rightarrow> JsonRpcHistory \<Rightarrow> JsonRpcRecord promise" where
  "JsonRpcHistory_get topic i s =
     (case JsonRpcHistory_isInitialized s of
        Pending \<Rightarrow> Pending
      | Rejected e \<Rightarrow> Rejected e
      | Fulfilled u \<Rightarrow>
          (case JsonRpcHistory_getRecord i s of
             Pending \<Rightarrow> Pending
           | Rejected e \<Rightarrow> Rejected e
           | Fulfilled r \<Rightarrow>
               if rec_topic r \<noteq> topic then Rejected MISMATCHED_TOPIC else Fulfilled r))"

definition delete_step :: "string \<Rightarrow> int option \<Rightarrow> JsonRpcRecord \<Rightarrow> JsonRpcHistory \<Rightarrow> JsonRpcHistory" where
  "delete_step topic i r s =
     (if rec_topic r = topic then
        (if i \<noteq> None \<and> rec_id r \<noteq> the i then s
         else JsonRpcHistory_emit (History_deleted r)
                (s\<lparr>records := AList.delete (rec_id r) (records s)\<rparr>))
      else s)"

definition JsonRpcHistory_delete ::
  "string \<Rightarrow> int option \<Rightarrow> JsonRpcHistory \<Rightarrow> unit promise \<times> JsonRpcHistory" where
  "JsonRpcHistory_delete topic i s =
     (case JsonRpcHistory_isInitialized s of
        Pending \<Rightarrow> (Pending, s)
      | Rejected e \<Rightarrow> (Rejected e, s)
      | Fulfilled u \<Rightarrow> (Fulfilled (), fold (delete_step topic i) (JsonRpcHistory_values s) s))"

definition JsonRpcHistory_exists :: "string \<Rightarrow> int \<Rightarrow> JsonRpcHistory \<Rightarrow> bool promise" where
  "JsonRpcHistory_exists topic i s =
     (case JsonRpcHistory_isInitialized s of
        Pending \<Rightarrow> Pending
      | Rejected e \<Rightarrow> Rejected e
      | Fulfilled u \<Rightarrow>
          if map_of (records s) i = None then Fulfilled False
          else
            (case JsonRpcHistory_getRecord i s of
               Pending \<Rightarrow> Pending
             | Rejected e \<Rightarrow> Rejected e
             | Fulfilled r \<Rightarrow> Fulfilled (rec_topic r = topic)))"

text \<open>
  \<^verbatim>\<open>getJsonRpcRecords\<close> reads the store; \<open>fault\<close> is the error of a store that fails
  the read, if it does.
\<close>

definition JsonRpcHistory_getJsonRpcRecords ::
  "error option \<Rightarrow> JsonRpcHistory \<Rightarrow> error + JsonRpcRecord list option" where
  "JsonRpcHistory_getJsonRpcRecords fault s =
     (case fault of Some e \<Rightarrow> Inl e | None \<Rightarrow> Inr (h_storage s))"

text \<open>The \<^verbatim>\<open>try\<close> block of \<^verbatim>\<open>restore\<close>: \<open>Inl\<close> is what it throws, with the state at the throw.\<close>

definition JsonRpcHistory_restore_try ::
  "error option \<Rightarrow> JsonRpcHistory \<Rightarrow> (error \<times> JsonRpcHistory) + JsonRpcHistory" where
  "JsonRpcHistory_restore_try fault s =
     (case JsonRpcHistory_getJsonRpcRecords fault s of
        Inl e \<Rightarrow> Inl (e, s)
      | Inr None \<Rightarrow> Inr s
      | Inr (Some persisted) \<Rightarrow>
          if persisted = [] then Inr s
          else if records s \<noteq> []
          then Inl (RESTORE_WILL_OVERRIDE, s\<lparr>h_logged := h_logged s @ [RESTORE_WILL_OVERRIDE]\<rparr>)
          else Inr (s\<lparr>h_cached := persisted\<rparr>))"

text \<open>\<^verbatim>\<open>restore\<close>: the \<^verbatim>\<open>catch\<close> logs the error and returns normally.\<close>

definition JsonRpcHistory_restore :: "error option \<Rightarrow> JsonRpcHistory \<Rightarrow> JsonRpcHistory" where
  "JsonRpcHistory_restore fault s =
     (case JsonRpcHistory_restore_try fault s of
        Inl (e, s') \<Rightarrow> s'\<lparr>h_logged := h_logged s' @ [e]\<rparr>
      | Inr s' \<Rightarrow> s')"

definition JsonRpcHistory_reset :: "JsonRpcHistory \<Rightarrow> JsonRpcHistory" where
  "JsonRpcHistory_reset s =
     s\<lparr>records := fold (\<lambda>r rs. AList.update (rec_id r) r rs) (h_cached s) (records s)\<rparr>"

definition JsonRpcHistory_onInit :: "JsonRpcHistory \<Rightarrow> JsonRpcHistory" where
  "JsonRpcHistory_onInit s = JsonRpcHistory_emit History_init (s\<lparr>h_cached := []\<rparr>)"

definition JsonRpcHistory_initialize :: "error option \<Rightarrow> JsonRpcHistory \<Rightarrow> JsonRpcHistory" where
  "JsonRpcHistory_initialize fault s =
     JsonRpcHistory_onInit (JsonRpcHistory_reset (JsonRpcHistory_restore fault s))"

definition JsonRpcHistory_init ::
  "error option \<Rightarrow> JsonRpcHistory \<Rightarrow> unit promise \<times> JsonRpcHistory" where
  "JsonRpcHistory_init fault s = (Fulfilled (), JsonRpcHistory_initialize fault s)"

section \<open>Expirer\<close>

record Expiration =
  exp_topic :: string
  expiry :: int

datatype expirer_event =
    Expirer_created string Expiration
  | Expirer_expired string Expiration
  | Expirer_deleted string Expiration
  | Expirer_sync

text \<open>
  The fields of the class, with \<open>x_listening\<close> for whether \<^verbatim>\<open>registerEventListeners\<close>
  has run (\<^verbatim>\<open>init\<close> calls it, the constructor does not), the durable store, the number
  of \<^verbatim>\<open>persist\<close> calls suspended at their \<^verbatim>\<open>await\<close>, the events emitted and the errors
  logged.
\<close>

record Expirer =
  expirations :: "(string \<times> Expiration) list"
  x_cached :: "Expiration list"
  initialized :: bool
  x_listening :: bool
  x_storage :: "Expiration list option"
  x_persisting :: nat
  x_events :: "expirer_event list"
  x_logged :: "error list"

definition Expirer_new :: Expirer where
  "Expirer_new =
     \<lparr>expirations = [], x_cached = [], initialized = False, x_listening = False,
      x_storage = None, x_persisting = 0, x_events = [], x_logged = []\<rparr>"

definition Expirer_values :: "Expirer \<Rightarrow> Expiration list" where
  "Expirer_values s = map snd (expirations s)"

definition Expirer_topics :: "Expirer \<Rightarrow> string list" where
  "Expirer_topics s = map fst (expirations s)"

definition Expirer_length :: "Expirer \<Rightarrow> nat" where
  "Expirer_length s = length (expirations s)"

text \<open>\<^verbatim>\<open>persist\<close> up to its \<^verbatim>\<open>await\<close>: the values are handed to the store and the call
  is suspended.\<close>

definition Expirer_persist :: "Expirer \<Rightarrow> Expirer" where
  "Expirer_persist s =
     s\<lparr>x_storage := Some (Expirer_values s), x_persisting := Suc (x_persisting s)\<rparr>"

text \<open>\<^verbatim>\<open>events.emit\<close>: the listeners for created, expired and deleted start \<^verbatim>\<open>persist\<close>
  once they are registered.\<close>

fun Expirer_emit :: "expirer_event \<Rightarrow> Expirer \<Rightarrow> Expirer" where
  "Expirer_emit Expirer_sync s = s\<lparr>x_events := x_events s @ [Expirer_sync]\<rparr>"
| "Expirer_emit ev s =
     (if x_listening s then Expirer_persist (s\<lparr>x_events := x_events s @ [ev]\<rparr>)
      else s\<lparr>x_events := x_events s @ [ev]\<rparr>)"



text \<open>\<^verbatim>\<open>isInitialized\<close> of the Expirer is synchronous: it throws when \<^verbatim>\<open>init\<close> has not
  finished.\<close>

definition Expirer_isInitialized :: "Expirer \<Rightarrow> error + unit" where
  "Expirer_isInitialized s = (if \<not> initialized s then Inl NOT_INITIALIZED else Inr ())"

definition Expirer_getExpiration :: "string \<Rightarrow> Expirer \<Rightarrow> error + Expiration" where
  "Expirer_getExpiration topic s =
     (case map_of (expirations s) topic of
        None \<Rightarrow> Inl NO_MATCHING_ID
      | Some expiration \<Rightarrow> Inr expiration)"

definition Expirer_has :: "string \<Rightarrow> Expirer \<Rightarrow> bool" where
  "Expirer_has topic s =
     (case Expirer_getExpiration topic s of Inl e \<Rightarrow> False | Inr expiration \<Rightarrow> True)"

definition Expirer_expire :: "string \<Rightarrow> Expiration \<Rightarrow> Expirer \<Rightarrow> Expirer" where
  "Expirer_expire topic expiration s =
     Expirer_emit (Expirer_expired topic expiration)
       (s\<lparr>expirations := AList.delete topic (expirations s)\<rparr>)"

text \<open>
  \<^verbatim>\<open>toMiliseconds\<close> belongs to \<^verbatim>\<open>@walletconnect/time\<close> and is a parameter; \<open>now\<close> is
  the value of \<^verbatim>\<open>Date.now()\<close>.
\<close>

definition Expirer_checkExpiry ::
  "(int \<Rightarrow> int) \<Rightarrow> int \<Rightarrow> string \<Rightarrow> Expiration \<Rightarrow> Expirer \<Rightarrow> Expirer" where
  "Expirer_checkExpiry toMiliseconds now topic expiration s =
     (let msToTimeout = toMiliseconds (expiry expiration) - now
      in if msToTimeout \<le> 0 then Expirer_expire topic expiration s else s)"

definition Expirer_set ::
  "(int \<Rightarrow> int) \<Rightarrow> int \<Rightarrow> string \<Rightarrow> Expiration \<Rightarrow> Expirer \<Rightarrow> error + Expirer" where
  "Expirer_set toMiliseconds now topic expiration s =
     (case Expirer_isInitialized s of
        Inl e \<Rightarrow> Inl e
      | Inr u \<Rightarrow>
          Inr (Expirer_emit (Expirer_created topic expiration)
                 (Expirer_checkExpiry toMiliseconds now topic expiration
                    (s\<lparr>expirations := AList.update topic expiration (expirations s)\<rparr>))))"

definition Expirer_get :: "string \<Rightarrow> Expirer \<Rightarrow> error + Expiration" where
  "Expirer_get topic s =
     (case Expirer_isInitialized s of
        Inl e \<Rightarrow> Inl e
      | Inr u \<Rightarrow> Expirer_getExpiration topic s)"

definition Expirer_del :: "string \<Rightarrow> Expirer \<Rightarrow> unit promise \<times> Expirer" where
  "Expirer_del topic s =
     (case Expirer_isInitialized s of
        Inl e \<Rightarrow> (Rejected e, s)
      | Inr u \<Rightarrow>
          if Expirer_has topic s then
            (case Expirer_getExpiration topic s of
               Inl e \<Rightarrow> (Rejected e, s)
             | Inr expiration \<Rightarrow>
                 (Fulfilled (),
                  Expirer_emit (Expirer_deleted topic expiration)
                    (s\<lparr>expirations := AList.delete topic (expirations s)\<rparr>)))
          else (Fulfilled (), s))"



definition Expirer_getExpirations :: "error option \<Rightarrow> Expirer \<Rightarrow> error + Expiration list option" where
  "Expirer_getExpirations fault s =
     (case fault of Some e \<Rightarrow> Inl e | None \<Rightarrow> Inr (x_storage s))"

definition Expirer_restore_try ::
  "error option \<Rightarrow> Expirer \<Rightarrow> (error \<times> Expirer) + Expirer" where
  "Expirer_restore_try fault s =
     (case Expirer_getExpirations fault s of
        Inl e \<Rightarrow> Inl (e, s)
      | Inr None \<Rightarrow> Inr s
      | Inr (Some persisted) \<Rightarrow>
          if persisted = [] then Inr s
          else if expirations s \<noteq> []
          then Inl (RESTORE_WILL_OVERRIDE, s\<lparr>x_logged := x_logged s @ [RESTORE_WILL_OVERRIDE]\<rparr>)
          else Inr (s\<lparr>x_cached := persisted\<rparr>))"

definition Expirer_restore :: "error option \<Rightarrow> Expirer \<Rightarrow> Expirer" where
  "Expirer_restore fault s =
     (case Expirer_restore_try fault s of
        Inl (e, s') \<Rightarrow> s'\<lparr>x_logged := x_logged s' @ [e]\<rparr>
      | Inr s' \<Rightarrow> s')"

definition Expirer_init :: "error option \<Rightarrow> Expirer \<Rightarrow> unit promise \<times> Expirer" where
  "Expirer_init fault s =
     (if \<not> initialized s then
        (let s1 = Expirer_restore fault s;
             s2 = s1\<lparr>expirations :=
                      fold (\<lambda>expiration es. AList.update (exp_topic expiration) expiration es)
                        (x_cached s1) (expirations s1)\<rparr>;
             s3 = s2\<lparr>x_cached := []\<rparr>;
             s4 = s3\<lparr>x_listening := True\<rparr>
         in (Fulfilled (), s4\<lparr>initialized := True\<rparr>))
      else (Fulfilled (), s))"

section \<open>Publisher\<close>

record ProtocolOptions =
  protocol :: string
  data :: "string option"

text \<open>The \<^verbatim>\<open>opts\<close> argument of \<^verbatim>\<open>publish\<close>: every field may be missing.\<close>

record PublishOptions =
  ttl :: "int option"
  relay :: "ProtocolOptions option"
  prompt :: "bool option"

record ParamsOpts =
  p_ttl :: int
  p_relay :: ProtocolOptions
  p_prompt :: bool

text \<open>\<^verbatim>\<open>PublisherTypes.Params\<close>, the value of a queue entry.\<close>

record Params =
  p_topic :: string
  p_message :: string
  p_opts :: ParamsOpts

text \<open>
  A property of a JavaScript object that the code may \<^verbatim>\<open>delete\<close>: \<open>Absent\<close> when the
  object has no such key, \<open>Present None\<close> when the key is there with the value
  \<^verbatim>\<open>undefined\<close>.
\<close>

datatype 'a js_field = Absent | Present "'a option"

record PublishParams =
  pp_topic :: string
  pp_message :: string
  pp_ttl :: int
  pp_prompt :: "bool js_field"

record Request =
  rq_method :: string
  rq_params :: PublishParams

record RelayMethods =
  publish :: string
  subscribe :: string
  subscription :: string
  unsubscribe :: string

text \<open>
  What the Publisher imports: the constant \<^verbatim>\<open>PUBLISHER_DEFAULT_TTL\<close> of
  \<^verbatim>\<open>../constants\<close> and the helpers of \<^verbatim>\<open>@walletconnect/utils\<close>. They are parameters
  of the model.
\<close>

record Imports =
  PUBLISHER_DEFAULT_TTL :: int
  getRelayProtocolName :: "PublishOptions option \<Rightarrow> ProtocolOptions"
  getRelayProtocolApi :: "string \<Rightarrow> RelayMethods"
  hashMessage :: "string \<Rightarrow> string"

text \<open>The queue, the requests handed to \<^verbatim>\<open>relayer.provider.request\<close> so far, and the
  errors logged.\<close>

record Publisher =
  queue :: "(string \<times> Params) list"
  sent :: "Request list"
  p_logged :: "error list"

definition Publisher_new :: Publisher where
  "Publisher_new = \<lparr>queue = [], sent = [], p_logged = []\<rparr>"

text \<open>\<^verbatim>\<open>opts?.ttl || PUBLISHER_DEFAULT_TTL\<close>: a missing \<^verbatim>\<open>opts\<close>, a missing \<^verbatim>\<open>ttl\<close> and the
  number 0 are falsy.\<close>

definition ttl_or_default :: "Imports \<Rightarrow> PublishOptions option \<Rightarrow> int" where
  "ttl_or_default imp opts =
     (case opts of
        None \<Rightarrow> PUBLISHER_DEFAULT_TTL imp
      | Some opt \<Rightarrow>
          (case ttl opt of
             None \<Rightarrow> PUBLISHER_DEFAULT_TTL imp
           | Some t \<Rightarrow> if t = 0 then PUBLISHER_DEFAULT_TTL imp else t))"

text \<open>\<^verbatim>\<open>opts?.prompt || false\<close>.\<close>

definition prompt_or_false :: "PublishOptions option \<Rightarrow> bool" where
  "prompt_or_false opts =
     (case opts of
        None \<Rightarrow> False
      | Some opt \<Rightarrow> (case prompt opt of None \<Rightarrow> False | Some b \<Rightarrow> b))"

text \<open>
  \<^verbatim>\<open>rpcPublish\<close> builds the request, deletes \<^verbatim>\<open>params.prompt\<close> when its value is
  \<^verbatim>\<open>undefined\<close>, and hands the request to the transport. It returns the request whose
  promise the caller awaits.
\<close>

definition Publisher_rpcPublish ::
  "Imports \<Rightarrow> string \<Rightarrow> string \<Rightarrow> int \<Rightarrow> ProtocolOptions \<Rightarrow> bool option \<Rightarrow> Publisher
     \<Rightarrow> Request \<times> Publisher" where
  "Publisher_rpcPublish imp topic message ttl' relay' prompt' s =
     (let api = getRelayProtocolApi imp (protocol relay');
          request = \<lparr>rq_method = publish api,
                     rq_params = \<lparr>pp_topic = topic, pp_message = message, pp_ttl = ttl',
                                  pp_prompt = Present prompt'\<rparr>\<rparr>;
          request' = (if pp_prompt (rq_params request) = Present None
                      then request\<lparr>rq_params := (rq_params request)\<lparr>pp_prompt := Absent\<rparr>\<rparr>
                      else request)
      in (request', s\<lparr>sent := sent s @ [request']\<rparr>))"

definition Publisher_onPublish :: "string \<Rightarrow> Params \<Rightarrow> Publisher \<Rightarrow> Publisher" where
  "Publisher_onPublish hash params' s = s\<lparr>queue := AList.delete hash (queue s)\<rparr>"

text \<open>
  \<^verbatim>\<open>publish\<close> up to its \<^verbatim>\<open>await\<close>: the entry is put into the queue and \<^verbatim>\<open>rpcPublish\<close>
  is called. The result is the fingerprint, the queued entry, the request in flight and the
  state in which the call is suspended.
\<close>

definition Publisher_publish_submit ::
  "Imports \<Rightarrow> string \<Rightarrow> string \<Rightarrow> PublishOptions option \<Rightarrow> Publisher
     \<Rightarrow> string \<times> Params \<times> Request \<times> Publisher" where
  "Publisher_publish_submit imp topic message opts s =
     (let ttl' = ttl_or_default imp opts;
          relay' = getRelayProtocolName imp opts;
          prompt' = prompt_or_false opts;
          params' = \<lparr>p_topic = topic, p_message = message,
                     p_opts = \<lparr>p_ttl = ttl', p_relay = relay', p_prompt = prompt'\<rparr>\<rparr>;
          hash = hashMessage imp message;
          s1 = s\<lparr>queue := AList.update hash params' (queue s)\<rparr>;
          (request, s2) = Publisher_rpcPublish imp topic message ttl' relay' (Some prompt') s1
      in (hash, params', request, s2))"

text \<open>
  \<^verbatim>\<open>publish\<close> after its \<^verbatim>\<open>await\<close>, given how the transport settled the request: on
  success \<^verbatim>\<open>onPublish\<close>, on failure the \<^verbatim>\<open>catch\<close>, which logs the error and throws it again.
\<close>

definition Publisher_publish_settle ::
  "string \<Rightarrow> Params \<Rightarrow> json promise \<Rightarrow> Publisher \<Rightarrow> unit promise \<times> Publisher" where
  "Publisher_publish_settle hash params' reply s =
     (case reply of
        Pending \<Rightarrow> (Pending, s)
      | Rejected e \<Rightarrow> (Rejected e, s\<lparr>p_logged := p_logged s @ [e]\<rparr>)
      | Fulfilled r \<Rightarrow> (Fulfilled (), Publisher_onPublish hash params' s))"

text \<open>\<open>provider\<close> is \<^verbatim>\<open>relayer.provider.request\<close>: how the transport settles a request.\<close>

definition Publisher_publish ::
  "Imports \<Rightarrow> (Request \<Rightarrow> json promise) \<Rightarrow> string \<Rightarrow> string \<Rightarrow> PublishOptions option \<Rightarrow> Publisher
     \<Rightarrow> unit promise \<times> Publisher" where
  "Publisher_publish imp provider topic message opts s =
     (let (hash, params', request, s2) = Publisher_publish_submit imp topic message opts s
      in Publisher_publish_settle hash params' (provider request) s2)"

text \<open>
  \<^verbatim>\<open>checkQueue\<close>: the \<^verbatim>\<open>forEach\<close> runs every callback up to its \<^verbatim>\<open>await\<close>, so all
  requests are handed to the transport first; each callback then goes on to \<^verbatim>\<open>onPublish\<close>
  when its request succeeds, and ends there when it fails.
\<close>

definition checkQueue_submit_step ::
  "Imports \<Rightarrow> string \<times> Params \<Rightarrow> (string \<times> Params \<times> Request) list \<times> Publisher
     \<Rightarrow> (string \<times> Params \<times> Request) list \<times> Publisher" where
  "checkQueue_submit_step imp entry acc =
     (let params' = snd entry;
          hash = hashMessage imp (p_message params');
          (request, s') = Publisher_rpcPublish imp (p_topic params') (p_message params')
                            (p_ttl (p_opts params')) (p_relay (p_opts params')) None (snd acc)
      in (fst acc @ [(hash, params', request)], s'))"

definition Publisher_checkQueue_submit ::
  "Imports \<Rightarrow> Publisher \<Rightarrow> (string \<times> Params \<times> Request) list \<times> Publisher" where
  "Publisher_checkQueue_submit imp s = fold (checkQueue_submit_step imp) (queue s) ([], s)"

definition checkQueue_settle_step ::
  "(Request \<Rightarrow> json promise) \<Rightarrow> string \<times> Params \<times> Request \<Rightarrow> Publisher \<Rightarrow> Publisher" where
  "checkQueue_settle_step provider inflight s =
     (case provider (snd (snd inflight)) of
        Fulfilled r \<Rightarrow> Publisher_onPublish (fst inflight) (fst (snd inflight)) s
      | Pending \<Rightarrow> s
      | Rejected e \<Rightarrow> s)"

definition Publisher_checkQueue :: "Imports \<Rightarrow> (Request \<Rightarrow> json promise) \<Rightarrow> Publisher \<Rightarrow> Publisher" where
  "Publisher_checkQueue imp provider s =
     (let (inflight, s1) = Publisher_checkQueue_submit imp s
      in fold (checkQueue_settle_step provider) inflight s1)"

section \<open>Auxiliary notions\<close>

text \<open>
  The request that \<^verbatim>\<open>checkQueue\<close> builds for a queued entry: it calls \<^verbatim>\<open>rpcPublish\<close>
  with four arguments, so \<^verbatim>\<open>prompt\<close> is \<^verbatim>\<open>undefined\<close> there.
\<close>

definition retry_request :: "Imports \<Rightarrow> Params \<Rightarrow> Request" where
  "retry_request imp p =
     fst (Publisher_rpcPublish imp (p_topic p) (p_message p) (p_ttl (p_opts p))
            (p_relay (p_opts p)) None Publisher_new)"


subsection \<open>Sample inputs\<close>

text \<open>Concrete inputs at which the theorems below are evaluated.\<close>

definition sample_imports :: Imports where
  "sample_imports =
     \<lparr>PUBLISHER_DEFAULT_TTL = 21600,
      getRelayProtocolName = (\<lambda>opts. \<lparr>protocol = ''waku'', data = None\<rparr>),
      getRelayProtocolApi = (\<lambda>p. \<lparr>publish = p @ ''_publish'', subscribe = p @ ''_subscribe'',
                                    subscription = p @ ''_subscription'',
                                    unsubscribe = p @ ''_unsubscribe''\<rparr>),
      hashMessage = rev\<rparr>"

definition sample_opts :: PublishOptions where
  "sample_opts = \<lparr>ttl = Some 0, relay = None, prompt = Some True\<rparr>"

definition provider_accepts :: "Request \<Rightarrow> json promise" where
  "provider_accepts request = Fulfilled (JBool True)"

definition provider_fails :: "Request \<Rightarrow> json promise" where
  "provider_fails request = Rejected (Failure ''offline'')"

definition sample_request :: JsonRpcRequest where
  "sample_request =
     \<lparr>req_id = 7, req_jsonrpc = ''2.0'', req_method = ''personal_sign'',
      req_params = Some (JArr [JStr ''0xdeadbeef''])\<rparr>"

definition sample_request' :: JsonRpcRequest where
  "sample_request' =
     \<lparr>req_id = 7, req_jsonrpc = ''2.0'', req_method = ''eth_sendTransaction'',
      req_params = None\<rparr>"

definition sample_record :: JsonRpcRecord where
  "sample_record =
     \<lparr>rec_id = 7, rec_topic = ''A'',
      rec_request = \<lparr>arg_method = ''personal_sign'', arg_params = JArr [JStr ''0xdeadbeef'']\<rparr>,
      rec_chainId = None, rec_response = None\<rparr>"

definition sample_format :: "string \<Rightarrow> json \<Rightarrow> int \<Rightarrow> JsonRpcRequest" where
  "sample_format m ps i = \<lparr>req_id = i, req_jsonrpc = ''2.0'', req_method = m, req_params = Some ps\<rparr>"

definition sample_expiration :: Expiration where
  "sample_expiration = \<lparr>exp_topic = ''A'', expiry = 60\<rparr>"

definition sample_expirer :: Expirer where
  "sample_expirer = Expirer_new\<lparr>initialized := True, x_listening := True\<rparr>"

section \<open>Facts about the building blocks\<close>

lemma update_fresh_append: "map_of xs k = None \<Longrightarrow> AList.update k v xs = xs @ [(k, v)]"
  by (induction xs) (auto split: if_splits)


subsection \<open>JsonRpcHistory\<close>

lemma History_persist_fields [simp]:
  "h_cached (JsonRpcHistory_persist s) = h_cached s"
  "records (JsonRpcHistory_persist s) = records s"
  "h_logged (JsonRpcHistory_persist s) = h_logged s"
  "h_events (JsonRpcHistory_persist s) = h_events s"
  "h_persisting (JsonRpcHistory_persist s) = Suc (h_persisting s)"
  by (simp_all add: JsonRpcHistory_persist_def)

lemma History_emit_fields [simp]:
  "h_cached (JsonRpcHistory_emit ev s) = h_cached s"
  "records (JsonRpcHistory_emit ev s) = records s"
  "h_logged (JsonRpcHistory_emit ev s) = h_logged s"
  "h_events (JsonRpcHistory_emit ev s) = h_events s @ [ev]"
  by (cases ev; simp)+

lemma History_emit_persisting:
  "h_persisting (JsonRpcHistory_emit ev s) =
     (if ev = History_sync \<or> ev = History_init then h_persisting s else Suc (h_persisting s))"
  by (cases ev) simp_all

lemma History_resume_iter:
  "h_events ((JsonRpcHistory_persist_resume ^^ n) s) = h_events s @ replicate n History_sync"
  "records ((JsonRpcHistory_persist_resume ^^ n) s) = records s"
  "h_cached ((JsonRpcHistory_persist_resume ^^ n) s) = h_cached s"
  "h_storage ((JsonRpcHistory_persist_resume ^^ n) s) = h_storage s"
  "h_persisting ((JsonRpcHistory_persist_resume ^^ n) s) = h_persisting s - n"
  by (induction n)
     (simp_all add: JsonRpcHistory_persist_resume_def replicate_append_same)

lemma History_settle_fields:
  "h_events (JsonRpcHistory_settle s) = h_events s @ replicate (h_persisting s) History_sync"
  "records (JsonRpcHistory_settle s) = records s"
  "h_cached (JsonRpcHistory_settle s) = h_cached s"
  "h_storage (JsonRpcHistory_settle s) = h_storage s"
  "h_persisting (JsonRpcHistory_settle s) = 0"
  by (simp_all add: JsonRpcHistory_settle_def History_resume_iter)

lemma fold_pending_step:
  "fold (pending_step f) rs acc =
     acc @ map (\<lambda>r. \<lparr>ev_topic = rec_topic r,
                      ev_request = f (arg_method (rec_request r)) (arg_params (rec_request r)) (rec_id r),
                      ev_chainId = rec_chainId r\<rparr>)
             (filter (\<lambda>r. rec_response r = None) rs)"
  by (induction rs arbitrary: acc) (simp_all add: pending_step_def)

subsection \<open>Expirer\<close>

lemma Expirer_persist_fields [simp]:
  "expirations (Expirer_persist s) = expirations s"
  "x_cached (Expirer_persist s) = x_cached s"
  "initialized (Expirer_persist s) = initialized s"
  "x_listening (Expirer_persist s) = x_listening s"
  "x_logged (Expirer_persist s) = x_logged s"
  "x_events (Expirer_persist s) = x_events s"
  "x_persisting (Expirer_persist s) = Suc (x_persisting s)"
  by (simp_all add: Expirer_persist_def)

lemma Expirer_emit_fields [simp]:
  "expirations (Expirer_emit ev s) = expirations s"
  "x_cached (Expirer_emit ev s) = x_cached s"
  "initialized (Expirer_emit ev s) = initialized s"
  "x_listening (Expirer_emit ev s) = x_listening s"
  "x_logged (Expirer_emit ev s) = x_logged s"
  "x_events (Expirer_emit ev s) = x_events s @ [ev]"
  by (cases ev; simp)+




lemma Expirer_checkExpiry_fields [simp]:
  "x_listening (Expirer_checkExpiry toMs now topic e s) = x_listening s"
  "initialized (Expirer_checkExpiry toMs now topic e s) = initialized s"
  by (simp_all add: Expirer_checkExpiry_def Expirer_expire_def Let_def)




text \<open>What a sweep over the entries \<open>xs\<close> leaves of the index and adds to the events.\<close>

lemma sweep_listening [simp]:
  "x_listening (fold (\<lambda>(topic, e). Expirer_checkExpiry toMs now topic e) xs s) = x_listening s"
  by (induction xs arbitrary: s) (simp_all split: prod.splits)




subsection \<open>Publisher\<close>

lemma retry_request_eq:
  "retry_request imp p =
     \<lparr>rq_method = publish (getRelayProtocolApi imp (protocol (p_relay (p_opts p)))),
      rq_params = \<lparr>pp_topic = p_topic p, pp_message = p_message p,
                   pp_ttl = p_ttl (p_opts p), pp_prompt = Absent\<rparr>\<rparr>"
  by (simp add: retry_request_def Publisher_rpcPublish_def Let_def)

lemma rpcPublish_None:
  "Publisher_rpcPublish imp (p_topic p) (p_message p) (p_ttl (p_opts p)) (p_relay (p_opts p)) None s
     = (retry_request imp p, s\<lparr>sent := sent s @ [retry_request imp p]\<rparr>)"
  by (simp add: Publisher_rpcPublish_def retry_request_eq Let_def)

lemma rpcPublish_Some:
  "Publisher_rpcPublish imp topic message t r (Some b) s
     = (\<lparr>rq_method = publish (getRelayProtocolApi imp (protocol r)),
         rq_params = \<lparr>pp_topic = topic, pp_message = message, pp_ttl = t,
                      pp_prompt = Present (Some b)\<rparr>\<rparr>,
        s\<lparr>sent := sent s @ [\<lparr>rq_method = publish (getRelayProtocolApi imp (protocol r)),
         rq_params = \<lparr>pp_topic = topic, pp_message = message, pp_ttl = t,
                      pp_prompt = Present (Some b)\<rparr>\<rparr>]\<rparr>)"
  by (simp add: Publisher_rpcPublish_def Let_def)

lemma checkQueue_submit_step_eq:
  "checkQueue_submit_step imp x (acc, s) =
     (acc @ [(hashMessage imp (p_message (snd x)), snd x, retry_request imp (snd x))],
      s\<lparr>sent := sent s @ [retry_request imp (snd x)]\<rparr>)"
  by (simp add: checkQueue_submit_step_def rpcPublish_None Let_def)

lemma checkQueue_submit_fold:
  "fold (checkQueue_submit_step imp) xs (acc, s) =
     (acc @ map (\<lambda>e. (hashMessage imp (p_message (snd e)), snd e, retry_request imp (snd e))) xs,
      s\<lparr>sent := sent s @ map (\<lambda>e. retry_request imp (snd e)) xs\<rparr>)"
proof (induction xs arbitrary: acc s)
  case Nil
  then show ?case by simp
next
  case (Cons x xs)
  show ?case
    by (simp add: Cons.IH checkQueue_submit_step_eq)
qed

lemma checkQueue_submit_inflight:
  "(h, p) \<in> set (queue s) \<Longrightarrow>
     (hashMessage imp (p_message p), p, retry_request imp p)
       \<in> set (fst (Publisher_checkQueue_submit imp s))"
  by (force simp: Publisher_checkQueue_submit_def checkQueue_submit_fold)

lemma checkQueue_settle_sent [simp]:
  "sent (fold (checkQueue_settle_step provider) xs s) = sent s"
  by (induction xs arbitrary: s)
     (simp_all add: checkQueue_settle_step_def Publisher_onPublish_def split: promise.splits)

lemma publish_submit_eq:
  "Publisher_publish_submit imp topic message opts s =
     (hashMessage imp message,
      \<lparr>p_topic = topic, p_message = message,
        p_opts = \<lparr>p_ttl = ttl_or_default imp opts, p_relay = getRelayProtocolName imp opts,
                  p_prompt = prompt_or_false opts\<rparr>\<rparr>,
      Publisher_rpcPublish imp topic message (ttl_or_default imp opts)
        (getRelayProtocolName imp opts) (Some (prompt_or_false opts))
        (s\<lparr>queue := AList.update (hashMessage imp message)
              \<lparr>p_topic = topic, p_message = message,
                p_opts = \<lparr>p_ttl = ttl_or_default imp opts, p_relay = getRelayProtocolName imp opts,
                  p_prompt = prompt_or_false opts\<rparr>\<rparr> (queue s)\<rparr>))"
  by (simp add: Publisher_publish_submit_def Let_def split: prod.splits)

section \<open>Publisher: queue and transport\<close>

text \<open>
  Claim C1. For every call \<^verbatim>\<open>publish(topic, message, opts)\<close>: the entry
  \<open>{topic, message, options}\<close> is in the queue under the message fingerprint before the
  transport is called (\<^verbatim>\<open>rpcPublish\<close> runs on the state that already holds the entry, and
  the entry is there while the request is in flight); if the transport accepts the request the
  fingerprint is removed from the queue; if the transport fails the queue is left as it is, so
  it still holds the entry, and the error is raised to the caller.
\<close>

theorem publish_queue_before_submit:
  "(case Publisher_publish_submit imp topic message opts s of
      (hash, params', request, s2) \<Rightarrow>
          hash = hashMessage imp message
        \<and> params' = \<lparr>p_topic = topic, p_message = message,
                     p_opts = \<lparr>p_ttl = ttl_or_default imp opts,
                               p_relay = getRelayProtocolName imp opts,
                               p_prompt = prompt_or_false opts\<rparr>\<rparr>
        \<and> map_of (queue (s\<lparr>queue := AList.update hash params' (queue s)\<rparr>)) hash = Some params'
        \<and> (request, s2) =
             Publisher_rpcPublish imp topic message (p_ttl (p_opts params'))
               (p_relay (p_opts params')) (Some (p_prompt (p_opts params')))
               (s\<lparr>queue := AList.update hash params' (queue s)\<rparr>)
        \<and> sent s2 = sent s @ [request]
        \<and> map_of (queue s2) hash = Some params'
        \<and> (\<forall>r. provider request = Fulfilled r \<longrightarrow>
              Publisher_publish imp provider topic message opts s
                = (Fulfilled (), s2\<lparr>queue := AList.delete hash (queue s2)\<rparr>)
            \<and> map_of (queue (snd (Publisher_publish imp provider topic message opts s))) hash = None)
        \<and> (\<forall>e. provider request = Rejected e \<longrightarrow>
              Publisher_publish imp provider topic message opts s
                = (Rejected e, s2\<lparr>p_logged := p_logged s2 @ [e]\<rparr>)
            \<and> queue (snd (Publisher_publish imp provider topic message opts s)) = queue s2
            \<and> map_of (queue (snd (Publisher_publish imp provider topic message opts s))) hash
                = Some params'))"
  by (auto simp: Publisher_publish_def publish_submit_eq rpcPublish_Some
        Publisher_publish_settle_def Publisher_onPublish_def update_conv' delete_conv')

theorem publish_queue_before_submit_witness:
  "Publisher_publish sample_imports provider_accepts ''topic'' ''hello'' (Some sample_opts)
     Publisher_new
     = (Fulfilled (),
        \<lparr>queue = [],
         sent = [\<lparr>rq_method = ''waku_publish'',
                  rq_params = \<lparr>pp_topic = ''topic'', pp_message = ''hello'', pp_ttl = 21600,
                               pp_prompt = Present (Some True)\<rparr>\<rparr>],
         p_logged = []\<rparr>)
   \<and> Publisher_publish sample_imports provider_fails ''topic'' ''hello'' (Some sample_opts)
       Publisher_new
     = (Rejected (Failure ''offline''),
        \<lparr>queue = [(''olleh'',
                   \<lparr>p_topic = ''topic'', p_message = ''hello'',
                    p_opts = \<lparr>p_ttl = 21600, p_relay = \<lparr>protocol = ''waku'', data = None\<rparr>,
                              p_prompt = True\<rparr>\<rparr>)],
         sent = [\<lparr>rq_method = ''waku_publish'',
                  rq_params = \<lparr>pp_topic = ''topic'', pp_message = ''hello'', pp_ttl = 21600,
                               pp_prompt = Present (Some True)\<rparr>\<rparr>],
         p_logged = [Failure ''offline'']\<rparr>)"
  using publish_queue_before_submit [where imp = sample_imports and provider = provider_accepts
          and topic = "''topic''" and message = "''hello''" and opts = "Some sample_opts"
          and s = Publisher_new]
        publish_queue_before_submit [where imp = sample_imports and provider = provider_fails
          and topic = "''topic''" and message = "''hello''" and opts = "Some sample_opts"
          and s = Publisher_new]
  by (simp add: publish_submit_eq rpcPublish_Some sample_imports_def sample_opts_def
        provider_accepts_def provider_fails_def Publisher_new_def ttl_or_default_def
        prompt_or_false_def)

section \<open>JsonRpcHistory: the ledger\<close>

text \<open>
  Claim C2. Once \<^verbatim>\<open>set\<close> has stored a record with the id of a request, a second call to
  \<^verbatim>\<open>set\<close> with that id, whatever its topic, request method, request params and chainId, changes nothing:
  records, store and events are as before. The record under the id is the one the first write
  made (or the one that was there before it).
\<close>

theorem History_set_first_write_wins:
  assumes ready: "h_cached s = []"
    and same: "req_id request' = req_id request"
  shows "JsonRpcHistory_set topic' request' chainId'
           (snd (JsonRpcHistory_set topic request chainId s))
         = (Fulfilled (), snd (JsonRpcHistory_set topic request chainId s))
       \<and> (map_of (records s) (req_id request) = None \<longrightarrow>
            map_of (records (snd (JsonRpcHistory_set topic request chainId s))) (req_id request)
            = Some \<lparr>rec_id = req_id request, rec_topic = topic,
                    rec_request = \<lparr>arg_method = req_method request,
                                   arg_params = (if truthy (req_params request)
                                             then the (req_params request) else JNull)\<rparr>,
                    rec_chainId = chainId, rec_response = None\<rparr>)
       \<and> (\<forall>r. map_of (records s) (req_id request) = Some r \<longrightarrow>
            JsonRpcHistory_set topic request chainId s = (Fulfilled (), s))"
  using ready same
  by (auto simp: JsonRpcHistory_set_def JsonRpcHistory_isInitialized_def Let_def update_conv')

theorem History_set_first_write_wins_witness:
  "h_cached JsonRpcHistory_new = []
   \<and> req_id sample_request' = req_id sample_request
   \<and> map_of (records JsonRpcHistory_new) (req_id sample_request) = None
   \<and> JsonRpcHistory_set ''B'' sample_request' (Some ''eip155:1'')
       (snd (JsonRpcHistory_set ''A'' sample_request None JsonRpcHistory_new))
     = (Fulfilled (), snd (JsonRpcHistory_set ''A'' sample_request None JsonRpcHistory_new))
   \<and> map_of (records (snd (JsonRpcHistory_set ''A'' sample_request None JsonRpcHistory_new))) 7
     = Some sample_record"
  using History_set_first_write_wins [where s = JsonRpcHistory_new
          and request = sample_request and request' = sample_request'
          and topic = "''A''" and topic' = "''B''"
          and chainId = None and chainId' = "Some ''eip155:1''"]
  by (simp add: JsonRpcHistory_new_def sample_request_def sample_request'_def sample_record_def)

text \<open>
  Claim C3. \<^verbatim>\<open>resolve\<close> changes nothing and emits nothing when no record has the id of the
  response or when the record already has a response. Otherwise it stores \<open>{error}\<close> for an
  error response and \<open>{result}\<close> for a result response, one of the two and never both, as the
  response of the record and emits updated, which the sync of the persistence listener follows
  once the store has answered. So a second \<^verbatim>\<open>resolve\<close> for the same id changes nothing:
  the response stays that of the first.
\<close>

theorem History_resolve_write_once:
  assumes ready: "h_cached s = []"
  shows "(map_of (records s) (resp_id response) = None \<longrightarrow>
            JsonRpcHistory_resolve response s = (Fulfilled (), s))
       \<and> (\<forall>r. map_of (records s) (resp_id response) = Some r \<and> rec_response r \<noteq> None \<longrightarrow>
            JsonRpcHistory_resolve response s = (Fulfilled (), s))
       \<and> (\<forall>r. map_of (records s) (resp_id response) = Some r \<and> rec_response r = None \<longrightarrow>
            fst (JsonRpcHistory_resolve response s) = Fulfilled ()
          \<and> map_of (records (snd (JsonRpcHistory_resolve response s))) (resp_id response)
            = Some (r\<lparr>rec_response := Some
                 (case response of
                    JsonRpcError i e \<Rightarrow> \<lparr>result = None, error = Some e\<rparr>
                  | JsonRpcResult i v \<Rightarrow> \<lparr>result = Some v, error = None\<rparr>)\<rparr>)
          \<and> h_events (snd (JsonRpcHistory_resolve response s))
            = h_events s @ [History_updated (r\<lparr>rec_response := Some
                 (case response of
                    JsonRpcError i e \<Rightarrow> \<lparr>result = None, error = Some e\<rparr>
                  | JsonRpcResult i v \<Rightarrow> \<lparr>result = Some v, error = None\<rparr>)\<rparr>)]
          \<and> h_events (JsonRpcHistory_settle (snd (JsonRpcHistory_resolve response s)))
            = h_events s @ History_updated (r\<lparr>rec_response := Some
                 (case response of
                    JsonRpcError i e \<Rightarrow> \<lparr>result = None, error = Some e\<rparr>
                  | JsonRpcResult i v \<Rightarrow> \<lparr>result = Some v, error = None\<rparr>)\<rparr>)
                # replicate (Suc (h_persisting s)) History_sync)
       \<and> (resp_id response' = resp_id response \<longrightarrow>
            JsonRpcHistory_resolve response' (snd (JsonRpcHistory_resolve response s))
            = (Fulfilled (), snd (JsonRpcHistory_resolve response s)))"
proof -
  have g: "JsonRpcHistory_isInitialized s = Fulfilled ()"
    using ready by (simp add: JsonRpcHistory_isInitialized_def)
  have absent: "map_of (records s) (resp_id response) = None \<longrightarrow>
            JsonRpcHistory_resolve response s = (Fulfilled (), s)"
    by (simp add: JsonRpcHistory_resolve_def g)
  have answered: "\<forall>r. map_of (records s) (resp_id response) = Some r \<and> rec_response r \<noteq> None \<longrightarrow>
            JsonRpcHistory_resolve response s = (Fulfilled (), s)"
    by (auto simp: JsonRpcHistory_resolve_def JsonRpcHistory_getRecord_def g)
  have fresh: "\<forall>r. map_of (records s) (resp_id response) = Some r \<and> rec_response r = None \<longrightarrow>
            fst (JsonRpcHistory_resolve response s) = Fulfilled ()
          \<and> map_of (records (snd (JsonRpcHistory_resolve response s))) (resp_id response)
            = Some (r\<lparr>rec_response := Some
                 (case response of
                    JsonRpcError i e \<Rightarrow> \<lparr>result = None, error = Some e\<rparr>
                  | JsonRpcResult i v \<Rightarrow> \<lparr>result = Some v, error = None\<rparr>)\<rparr>)
          \<and> h_events (snd (JsonRpcHistory_resolve response s))
            = h_events s @ [History_updated (r\<lparr>rec_response := Some
                 (case response of
                    JsonRpcError i e \<Rightarrow> \<lparr>result = None, error = Some e\<rparr>
                  | JsonRpcResult i v \<Rightarrow> \<lparr>result = Some v, error = None\<rparr>)\<rparr>)]
          \<and> h_events (JsonRpcHistory_settle (snd (JsonRpcHistory_resolve response s)))
            = h_events s @ History_updated (r\<lparr>rec_response := Some
                 (case response of
                    JsonRpcError i e \<Rightarrow> \<lparr>result = None, error = Some e\<rparr>
                  | JsonRpcResult i v \<Rightarrow> \<lparr>result = Some v, error = None\<rparr>)\<rparr>)
                # replicate (Suc (h_persisting s)) History_sync"
    by (cases response)
       (auto simp: JsonRpcHistory_resolve_def JsonRpcHistory_getRecord_def g Let_def
          update_conv' History_settle_fields)
  have twice: "resp_id response' = resp_id response \<longrightarrow>
            JsonRpcHistory_resolve response' (snd (JsonRpcHistory_resolve response s))
            = (Fulfilled (), snd (JsonRpcHistory_resolve response s))"
  proof
    assume same: "resp_id response' = resp_id response"
    let ?s1 = "snd (JsonRpcHistory_resolve response s)"
    show "JsonRpcHistory_resolve response' ?s1 = (Fulfilled (), ?s1)"
    proof (cases "map_of (records s) (resp_id response)")
      case None
      then have "?s1 = s" using absent by simp
      then show ?thesis
        using None same by (simp add: JsonRpcHistory_resolve_def g)
    next
      case (Some r)
      note stored = Some
      show ?thesis
      proof (cases "rec_response r")
        case None
        have c1: "h_cached ?s1 = []"
          using stored None ready
          by (simp add: JsonRpcHistory_resolve_def JsonRpcHistory_getRecord_def g Let_def)
        have "\<exists>r'. map_of (records ?s1) (resp_id response) = Some r' \<and> rec_response r' \<noteq> None"
          using fresh stored None by simp
        then show ?thesis
          using c1 same
          by (auto simp: JsonRpcHistory_resolve_def JsonRpcHistory_getRecord_def
                JsonRpcHistory_isInitialized_def)
      next
        case (Some a)
        then have "?s1 = s" using answered stored by simp
        then show ?thesis
          using Some stored same
          by (simp add: JsonRpcHistory_resolve_def JsonRpcHistory_getRecord_def g)
      qed
    qed
  qed
  show ?thesis using absent answered fresh twice by blast
qed

theorem History_resolve_write_once_witness:
  "h_cached (JsonRpcHistory_new\<lparr>records := [(7, sample_record)]\<rparr>) = []
   \<and> map_of (records (JsonRpcHistory_new\<lparr>records := [(7, sample_record)]\<rparr>))
       (resp_id (JsonRpcError 7 (JStr ''rejected''))) = Some sample_record
   \<and> rec_response sample_record = None
   \<and> map_of (records (snd (JsonRpcHistory_resolve (JsonRpcError 7 (JStr ''rejected''))
                              (JsonRpcHistory_new\<lparr>records := [(7, sample_record)]\<rparr>)))) 7
     = Some (sample_record\<lparr>rec_response :=
               Some \<lparr>result = None, error = Some (JStr ''rejected'')\<rparr>\<rparr>)
   \<and> h_events (JsonRpcHistory_settle
         (snd (JsonRpcHistory_resolve (JsonRpcError 7 (JStr ''rejected''))
                 (JsonRpcHistory_new\<lparr>records := [(7, sample_record)]\<rparr>))))
     = [History_updated (sample_record\<lparr>rec_response :=
               Some \<lparr>result = None, error = Some (JStr ''rejected'')\<rparr>\<rparr>), History_sync]
   \<and> JsonRpcHistory_resolve (JsonRpcResult 7 (JStr ''0xsigned''))
       (snd (JsonRpcHistory_resolve (JsonRpcError 7 (JStr ''rejected''))
               (JsonRpcHistory_new\<lparr>records := [(7, sample_record)]\<rparr>)))
     = (Fulfilled (),
        snd (JsonRpcHistory_resolve (JsonRpcError 7 (JStr ''rejected''))
               (JsonRpcHistory_new\<lparr>records := [(7, sample_record)]\<rparr>)))
   \<and> JsonRpcHistory_resolve (JsonRpcResult 8 JNull)
       (JsonRpcHistory_new\<lparr>records := [(7, sample_record)]\<rparr>)
     = (Fulfilled (), JsonRpcHistory_new\<lparr>records := [(7, sample_record)]\<rparr>)"
  using History_resolve_write_once [where s = "JsonRpcHistory_new\<lparr>records := [(7, sample_record)]\<rparr>"
          and response = "JsonRpcError 7 (JStr ''rejected'')"
          and response' = "JsonRpcResult 7 (JStr ''0xsigned'')"]
        History_resolve_write_once [where s = "JsonRpcHistory_new\<lparr>records := [(7, sample_record)]\<rparr>"
          and response = "JsonRpcResult 8 JNull" and response' = "JsonRpcResult 8 JNull"]
  by (simp add: JsonRpcHistory_new_def sample_record_def)

text \<open>
  Claim C4. \<^verbatim>\<open>get(topic, id)\<close> fails with no-matching-id when no record has the id, fails
  with mismatched-topic when the record with the id has another topic, and returns the record
  when the topics agree. In particular, after a record is created under topic A with a new id,
  \<^verbatim>\<open>get\<close> with another topic B and that id fails with mismatched-topic, and \<^verbatim>\<open>get\<close>
  with topic A returns the record.
\<close>

theorem History_get_topic_isolation:
  assumes ready: "h_cached s = []"
  shows "(map_of (records s) i = None \<longrightarrow> JsonRpcHistory_get topic i s = Rejected NO_MATCHING_ID)
       \<and> (\<forall>r. map_of (records s) i = Some r \<and> rec_topic r \<noteq> topic \<longrightarrow>
            JsonRpcHistory_get topic i s = Rejected MISMATCHED_TOPIC)
       \<and> (\<forall>r. map_of (records s) i = Some r \<and> rec_topic r = topic \<longrightarrow>
            JsonRpcHistory_get topic i s = Fulfilled r)
       \<and> (map_of (records s) (req_id request) = None \<and> topicA \<noteq> topicB \<longrightarrow>
            JsonRpcHistory_get topicB (req_id request)
              (snd (JsonRpcHistory_set topicA request chainId s)) = Rejected MISMATCHED_TOPIC
          \<and> (\<exists>r. JsonRpcHistory_get topicA (req_id request)
              (snd (JsonRpcHistory_set topicA request chainId s)) = Fulfilled r
              \<and> rec_id r = req_id request \<and> rec_topic r = topicA))"
  using ready
  by (auto simp: JsonRpcHistory_get_def JsonRpcHistory_getRecord_def JsonRpcHistory_set_def
        JsonRpcHistory_isInitialized_def Let_def update_conv')

theorem History_get_topic_isolation_witness:
  "h_cached JsonRpcHistory_new = []
   \<and> map_of (records JsonRpcHistory_new) (req_id sample_request) = None
   \<and> ''A'' \<noteq> ''B''
   \<and> JsonRpcHistory_get ''A'' 8 JsonRpcHistory_new = Rejected NO_MATCHING_ID
   \<and> JsonRpcHistory_get ''B'' 7 (snd (JsonRpcHistory_set ''A'' sample_request None JsonRpcHistory_new))
     = Rejected MISMATCHED_TOPIC
   \<and> JsonRpcHistory_get ''A'' 7 (snd (JsonRpcHistory_set ''A'' sample_request None JsonRpcHistory_new))
     = Fulfilled sample_record"
  using History_get_topic_isolation [where s = JsonRpcHistory_new and i = 8 and topic = "''A''"
          and request = sample_request and topicA = "''A''" and topicB = "''B''" and chainId = None]
  by (simp add: JsonRpcHistory_new_def sample_request_def sample_record_def
        JsonRpcHistory_get_def JsonRpcHistory_getRecord_def JsonRpcHistory_isInitialized_def
        JsonRpcHistory_set_def JsonRpcHistory_persist_def Let_def)

section \<open>Readiness and restore\<close>

text \<open>
  Claim C5, as the code has it. The Expirer does not wait for readiness: \<^verbatim>\<open>set\<close>,
  \<^verbatim>\<open>get\<close> and \<^verbatim>\<open>del\<close> fail with not-initialized when \<^verbatim>\<open>init\<close> has not finished and
  pass the check once it has, and \<^verbatim>\<open>init\<close> always ends with the flag set; \<^verbatim>\<open>has\<close> and
  the getters \<^verbatim>\<open>length\<close>, \<^verbatim>\<open>topics\<close> and \<^verbatim>\<open>values\<close> read the index without any check.
  The operations of JsonRpcHistory (\<^verbatim>\<open>set\<close>, \<^verbatim>\<open>resolve\<close>, \<^verbatim>\<open>delete\<close>, \<^verbatim>\<open>get\<close>,
  \<^verbatim>\<open>exists\<close>) go ahead at once whenever the staging list is empty, which it also is before
  \<^verbatim>\<open>init\<close> has been called; they wait for the init event, changing nothing, exactly while
  the staging list holds restored records; \<^verbatim>\<open>init\<close> leaves the staging list empty. No
  operation of JsonRpcHistory ends in not-initialized, in any state, and its getters
  \<^verbatim>\<open>values\<close>, \<^verbatim>\<open>keys\<close>, \<^verbatim>\<open>size\<close> and \<^verbatim>\<open>pending\<close> read the records without any check.
\<close>

theorem readiness_checks:
  "(\<not> initialized x \<longrightarrow>
       Expirer_set toMs now topic expiration x = Inl NOT_INITIALIZED
     \<and> Expirer_get topic x = Inl NOT_INITIALIZED
     \<and> Expirer_del topic x = (Rejected NOT_INITIALIZED, x))
   \<and> (initialized x \<longrightarrow>
       Expirer_isInitialized x = Inr ()
     \<and> Expirer_set toMs now topic expiration x \<noteq> Inl NOT_INITIALIZED
     \<and> (\<exists>x'. Expirer_set toMs now topic expiration x = Inr x')
     \<and> Expirer_get topic x \<noteq> Inl NOT_INITIALIZED
     \<and> Expirer_get topic x =
          (case map_of (expirations x) topic of None \<Rightarrow> Inl NO_MATCHING_ID | Some e \<Rightarrow> Inr e)
     \<and> fst (Expirer_del topic x) = Fulfilled ())
   \<and> initialized (snd (Expirer_init fault x))
   \<and> Expirer_has topic x = (map_of (expirations x) topic \<noteq> None)
   \<and> Expirer_length x = length (expirations x)
   \<and> Expirer_topics x = map fst (expirations x)
   \<and> Expirer_values x = map snd (expirations x)
   \<and> (h_cached s = [] \<longrightarrow>
        JsonRpcHistory_isInitialized s = Fulfilled ()
      \<and> fst (JsonRpcHistory_set htopic request chainId s) = Fulfilled ()
      \<and> fst (JsonRpcHistory_resolve response s) = Fulfilled ()
      \<and> fst (JsonRpcHistory_delete htopic i s) = Fulfilled ()
      \<and> JsonRpcHistory_get htopic j s \<noteq> Pending
      \<and> JsonRpcHistory_get htopic j s =
           (case map_of (records s) j of
              None \<Rightarrow> Rejected NO_MATCHING_ID
            | Some r \<Rightarrow> if rec_topic r \<noteq> htopic then Rejected MISMATCHED_TOPIC else Fulfilled r)
      \<and> JsonRpcHistory_exists htopic j s \<noteq> Pending
      \<and> JsonRpcHistory_exists htopic j s =
           Fulfilled (case map_of (records s) j of None \<Rightarrow> False | Some r \<Rightarrow> rec_topic r = htopic))
   \<and> (h_cached s \<noteq> [] \<longrightarrow>
        JsonRpcHistory_isInitialized s = Pending
      \<and> JsonRpcHistory_set htopic request chainId s = (Pending, s)
      \<and> JsonRpcHistory_resolve response s = (Pending, s)
      \<and> JsonRpcHistory_delete htopic i s = (Pending, s)
      \<and> JsonRpcHistory_get htopic j s = Pending
      \<and> JsonRpcHistory_exists htopic j s = Pending)
   \<and> h_cached (snd (JsonRpcHistory_init fault s)) = []
   \<and> fst (JsonRpcHistory_init fault s) = Fulfilled ()
   \<and> JsonRpcHistory_isInitialized s \<noteq> Rejected NOT_INITIALIZED
   \<and> fst (JsonRpcHistory_set htopic request chainId s) \<noteq> Rejected NOT_INITIALIZED
   \<and> fst (JsonRpcHistory_resolve response s) \<noteq> Rejected NOT_INITIALIZED
   \<and> fst (JsonRpcHistory_delete htopic i s) \<noteq> Rejected NOT_INITIALIZED
   \<and> JsonRpcHistory_get htopic j s \<noteq> Rejected NOT_INITIALIZED
   \<and> JsonRpcHistory_exists htopic j s \<noteq> Rejected NOT_INITIALIZED
   \<and> JsonRpcHistory_values s = map snd (records s)
   \<and> JsonRpcHistory_keys s = map fst (records s)
   \<and> JsonRpcHistory_size s = length (records s)
   \<and> JsonRpcHistory_pending formatJsonRpcRequest s =
        fold (pending_step formatJsonRpcRequest) (map snd (records s)) []"
proof -
  have x0: "\<not> initialized x \<longrightarrow>
       Expirer_set toMs now topic expiration x = Inl NOT_INITIALIZED
     \<and> Expirer_get topic x = Inl NOT_INITIALIZED
     \<and> Expirer_del topic x = (Rejected NOT_INITIALIZED, x)"
    by (simp add: Expirer_set_def Expirer_get_def Expirer_del_def Expirer_isInitialized_def)
  have x1: "initialized x \<longrightarrow>
       Expirer_isInitialized x = Inr ()
     \<and> Expirer_set toMs now topic expiration x \<noteq> Inl NOT_INITIALIZED
     \<and> (\<exists>x'. Expirer_set toMs now topic expiration x = Inr x')
     \<and> Expirer_get topic x \<noteq> Inl NOT_INITIALIZED
     \<and> Expirer_get topic x =
          (case map_of (expirations x) topic of None \<Rightarrow> Inl NO_MATCHING_ID | Some e \<Rightarrow> Inr e)
     \<and> fst (Expirer_del topic x) = Fulfilled ()"
    by (auto simp: Expirer_set_def Expirer_get_def Expirer_del_def Expirer_isInitialized_def
          Expirer_getExpiration_def Expirer_has_def split: option.splits)
  have x2: "initialized (snd (Expirer_init fault x))"
    by (simp add: Expirer_init_def Let_def)
  have x3: "Expirer_has topic x = (map_of (expirations x) topic \<noteq> None)"
    by (simp add: Expirer_has_def Expirer_getExpiration_def split: option.splits)
  have x4: "Expirer_length x = length (expirations x)
     \<and> Expirer_topics x = map fst (expirations x)
     \<and> Expirer_values x = map snd (expirations x)"
    by (simp add: Expirer_length_def Expirer_topics_def Expirer_values_def)
  have h0: "h_cached s = [] \<longrightarrow>
        JsonRpcHistory_isInitialized s = Fulfilled ()
      \<and> fst (JsonRpcHistory_set htopic request chainId s) = Fulfilled ()
      \<and> fst (JsonRpcHistory_resolve response s) = Fulfilled ()
      \<and> fst (JsonRpcHistory_delete htopic i s) = Fulfilled ()
      \<and> JsonRpcHistory_get htopic j s \<noteq> Pending
      \<and> JsonRpcHistory_get htopic j s =
           (case map_of (records s) j of
              None \<Rightarrow> Rejected NO_MATCHING_ID
            | Some r \<Rightarrow> if rec_topic r \<noteq> htopic then Rejected MISMATCHED_TOPIC else Fulfilled r)
      \<and> JsonRpcHistory_exists htopic j s \<noteq> Pending
      \<and> JsonRpcHistory_exists htopic j s =
           Fulfilled (case map_of (records s) j of None \<Rightarrow> False | Some r \<Rightarrow> rec_topic r = htopic)"
    by (auto simp: JsonRpcHistory_isInitialized_def JsonRpcHistory_set_def
          JsonRpcHistory_resolve_def JsonRpcHistory_delete_def JsonRpcHistory_get_def
          JsonRpcHistory_exists_def JsonRpcHistory_getRecord_def Let_def split: option.splits)
  have h1: "h_cached s \<noteq> [] \<longrightarrow>
        JsonRpcHistory_isInitialized s = Pending
      \<and> JsonRpcHistory_set htopic request chainId s = (Pending, s)
      \<and> JsonRpcHistory_resolve response s = (Pending, s)
      \<and> JsonRpcHistory_delete htopic i s = (Pending, s)
      \<and> JsonRpcHistory_get htopic j s = Pending
      \<and> JsonRpcHistory_exists htopic j s = Pending"
    by (simp add: JsonRpcHistory_isInitialized_def JsonRpcHistory_set_def
          JsonRpcHistory_resolve_def JsonRpcHistory_delete_def JsonRpcHistory_get_def
          JsonRpcHistory_exists_def)
  have h2: "h_cached (snd (JsonRpcHistory_init fault s)) = []
     \<and> fst (JsonRpcHistory_init fault s) = Fulfilled ()"
    by (simp add: JsonRpcHistory_init_def JsonRpcHistory_initialize_def JsonRpcHistory_onInit_def)
  have h3: "JsonRpcHistory_isInitialized s \<noteq> Rejected NOT_INITIALIZED
     \<and> fst (JsonRpcHistory_set htopic request chainId s) \<noteq> Rejected NOT_INITIALIZED
     \<and> fst (JsonRpcHistory_resolve response s) \<noteq> Rejected NOT_INITIALIZED
     \<and> fst (JsonRpcHistory_delete htopic i s) \<noteq> Rejected NOT_INITIALIZED"
    using h0 h1 by (cases "h_cached s = []") simp_all
  have h4: "JsonRpcHistory_get htopic j s \<noteq> Rejected NOT_INITIALIZED
     \<and> JsonRpcHistory_exists htopic j s \<noteq> Rejected NOT_INITIALIZED"
    using h0 h1 by (cases "h_cached s = []") (simp_all split: option.splits)
  have h5: "JsonRpcHistory_values s = map snd (records s)
     \<and> JsonRpcHistory_keys s = map fst (records s)
     \<and> JsonRpcHistory_size s = length (records s)
     \<and> JsonRpcHistory_pending formatJsonRpcRequest s =
          fold (pending_step formatJsonRpcRequest) (map snd (records s)) []"
    by (simp add: JsonRpcHistory_values_def JsonRpcHistory_keys_def JsonRpcHistory_size_def
          JsonRpcHistory_pending_def)
  show ?thesis using x0 x1 x2 x3 x4 h0 h1 h2 h3 h4 h5 by blast
qed

theorem readiness_checks_witness:
  "\<not> initialized Expirer_new
   \<and> Expirer_set ((*) 1000) 0 ''A'' sample_expiration Expirer_new = Inl NOT_INITIALIZED
   \<and> Expirer_get ''A'' Expirer_new = Inl NOT_INITIALIZED
   \<and> Expirer_has ''A'' Expirer_new = False
   \<and> initialized sample_expirer
   \<and> Expirer_set ((*) 1000) 0 ''A'' sample_expiration sample_expirer \<noteq> Inl NOT_INITIALIZED
   \<and> Expirer_get ''A'' sample_expirer = Inl NO_MATCHING_ID
   \<and> h_cached JsonRpcHistory_new = []
   \<and> fst (JsonRpcHistory_set ''A'' sample_request None JsonRpcHistory_new) = Fulfilled ()
   \<and> JsonRpcHistory_get ''A'' 7 JsonRpcHistory_new = Rejected NO_MATCHING_ID
   \<and> JsonRpcHistory_exists ''A'' 7 JsonRpcHistory_new = Fulfilled False
   \<and> h_cached (JsonRpcHistory_new\<lparr>h_cached := [sample_record]\<rparr>) \<noteq> []
   \<and> JsonRpcHistory_set ''A'' sample_request None (JsonRpcHistory_new\<lparr>h_cached := [sample_record]\<rparr>)
     = (Pending, JsonRpcHistory_new\<lparr>h_cached := [sample_record]\<rparr>)
   \<and> JsonRpcHistory_get ''A'' 7 (JsonRpcHistory_new\<lparr>h_cached := [sample_record]\<rparr>) = Pending"
  using readiness_checks [where x = Expirer_new and s = JsonRpcHistory_new
          and toMs = "(*) 1000" and now = 0 and topic = "''A''" and expiration = sample_expiration
          and htopic = "''A''" and request = sample_request and chainId = None and j = 7]
        readiness_checks [where x = sample_expirer
          and s = "JsonRpcHistory_new\<lparr>h_cached := [sample_record]\<rparr>"
          and toMs = "(*) 1000" and now = 0 and topic = "''A''" and expiration = sample_expiration
          and htopic = "''A''" and request = sample_request and chainId = None and j = 7]
  by (simp add: Expirer_new_def sample_expirer_def JsonRpcHistory_new_def)

text \<open>
  Claim C5 as stated fails: on a freshly constructed Expirer \<^verbatim>\<open>set\<close> does not wait, it
  raises not-initialized; and on a JsonRpcHistory whose store holds a record but whose
  \<^verbatim>\<open>init\<close> has not run, \<^verbatim>\<open>set\<close> does not wait either, it completes at once.
\<close>

theorem not_initialized_reachable:
  "Expirer_set ((*) 1000) 0 ''A'' sample_expiration Expirer_new = Inl NOT_INITIALIZED
   \<and> fst (JsonRpcHistory_set ''B'' sample_request' None
            (JsonRpcHistory_new\<lparr>h_storage := Some [sample_record]\<rparr>)) = Fulfilled ()"
  by (simp add: Expirer_set_def Expirer_isInitialized_def Expirer_new_def
        JsonRpcHistory_set_def JsonRpcHistory_isInitialized_def JsonRpcHistory_new_def Let_def)

text \<open>
  Claim C6. For JsonRpcHistory and for the Expirer: when \<^verbatim>\<open>restore\<close> finds a non-empty
  persisted list while the live index is not empty, it merges nothing and changes nothing but
  the error log, where the restore-will-override error is recorded; it raises nothing.
  Initialization then completes: the index is as it was, and the component is ready (the
  init event is emitted and the staging list is empty; the Expirer has its flag set).
\<close>

theorem restore_conflict_refused:
  "(h_storage s = Some persisted \<and> persisted \<noteq> [] \<and> records s \<noteq> [] \<longrightarrow>
      JsonRpcHistory_restore None s
        = s\<lparr>h_logged := h_logged s @ [RESTORE_WILL_OVERRIDE, RESTORE_WILL_OVERRIDE]\<rparr>
    \<and> (h_cached s = [] \<longrightarrow>
        JsonRpcHistory_init None s
          = (Fulfilled (),
             s\<lparr>h_logged := h_logged s @ [RESTORE_WILL_OVERRIDE, RESTORE_WILL_OVERRIDE],
               h_events := h_events s @ [History_init]\<rparr>)
      \<and> records (snd (JsonRpcHistory_init None s)) = records s
      \<and> JsonRpcHistory_isInitialized (snd (JsonRpcHistory_init None s)) = Fulfilled ()))
   \<and> (x_storage x = Some xpersisted \<and> xpersisted \<noteq> [] \<and> expirations x \<noteq> [] \<longrightarrow>
      Expirer_restore None x
        = x\<lparr>x_logged := x_logged x @ [RESTORE_WILL_OVERRIDE, RESTORE_WILL_OVERRIDE]\<rparr>
    \<and> (x_cached x = [] \<and> \<not> initialized x \<longrightarrow>
        Expirer_init None x
          = (Fulfilled (),
             x\<lparr>x_logged := x_logged x @ [RESTORE_WILL_OVERRIDE, RESTORE_WILL_OVERRIDE],
               x_listening := True, initialized := True\<rparr>)
      \<and> expirations (snd (Expirer_init None x)) = expirations x
      \<and> Expirer_isInitialized (snd (Expirer_init None x)) = Inr ()))"
proof -
  have h: "h_storage s = Some persisted \<and> persisted \<noteq> [] \<and> records s \<noteq> [] \<longrightarrow>
      JsonRpcHistory_restore None s
        = s\<lparr>h_logged := h_logged s @ [RESTORE_WILL_OVERRIDE, RESTORE_WILL_OVERRIDE]\<rparr>"
    by (simp add: JsonRpcHistory_restore_def JsonRpcHistory_restore_try_def
          JsonRpcHistory_getJsonRpcRecords_def)
  have hi: "h_storage s = Some persisted \<and> persisted \<noteq> [] \<and> records s \<noteq> [] \<and> h_cached s = [] \<longrightarrow>
        JsonRpcHistory_init None s
          = (Fulfilled (),
             s\<lparr>h_logged := h_logged s @ [RESTORE_WILL_OVERRIDE, RESTORE_WILL_OVERRIDE],
               h_events := h_events s @ [History_init]\<rparr>)"
    using h
    by (simp add: JsonRpcHistory_init_def JsonRpcHistory_initialize_def JsonRpcHistory_onInit_def
          JsonRpcHistory_reset_def)
  have hr: "h_storage s = Some persisted \<and> persisted \<noteq> [] \<and> records s \<noteq> [] \<and> h_cached s = [] \<longrightarrow>
       records (snd (JsonRpcHistory_init None s)) = records s
      \<and> JsonRpcHistory_isInitialized (snd (JsonRpcHistory_init None s)) = Fulfilled ()"
    using hi by (simp add: JsonRpcHistory_isInitialized_def)
  have x: "x_storage x = Some xpersisted \<and> xpersisted \<noteq> [] \<and> expirations x \<noteq> [] \<longrightarrow>
      Expirer_restore None x
        = x\<lparr>x_logged := x_logged x @ [RESTORE_WILL_OVERRIDE, RESTORE_WILL_OVERRIDE]\<rparr>"
    by (simp add: Expirer_restore_def Expirer_restore_try_def Expirer_getExpirations_def)
  have xi: "x_storage x = Some xpersisted \<and> xpersisted \<noteq> [] \<and> expirations x \<noteq> []
            \<and> x_cached x = [] \<and> \<not> initialized x \<longrightarrow>
        Expirer_init None x
          = (Fulfilled (),
             x\<lparr>x_logged := x_logged x @ [RESTORE_WILL_OVERRIDE, RESTORE_WILL_OVERRIDE],
               x_listening := True, initialized := True\<rparr>)"
    using x by (simp add: Expirer_init_def Let_def)
  have xr: "x_storage x = Some xpersisted \<and> xpersisted \<noteq> [] \<and> expirations x \<noteq> []
            \<and> x_cached x = [] \<and> \<not> initialized x \<longrightarrow>
       expirations (snd (Expirer_init None x)) = expirations x
      \<and> Expirer_isInitialized (snd (Expirer_init None x)) = Inr ()"
    using xi by (simp add: Expirer_isInitialized_def)
  show ?thesis using h hi hr x xi xr by blast
qed

theorem restore_conflict_refused_witness:
  "h_storage (JsonRpcHistory_new\<lparr>records := [(7, sample_record)], h_storage := Some [sample_record]\<rparr>)
     = Some [sample_record]
   \<and> [sample_record] \<noteq> []
   \<and> records (JsonRpcHistory_new\<lparr>records := [(7, sample_record)], h_storage := Some [sample_record]\<rparr>) \<noteq> []
   \<and> JsonRpcHistory_init None
       (JsonRpcHistory_new\<lparr>records := [(7, sample_record)], h_storage := Some [sample_record]\<rparr>)
     = (Fulfilled (),
        \<lparr>records = [(7, sample_record)], h_cached = [], h_storage = Some [sample_record],
         h_persisting = 0, h_events = [History_init],
         h_logged = [RESTORE_WILL_OVERRIDE, RESTORE_WILL_OVERRIDE]\<rparr>)
   \<and> x_storage (Expirer_new\<lparr>expirations := [(''A'', sample_expiration)],
                              x_storage := Some [sample_expiration]\<rparr>) = Some [sample_expiration]
   \<and> Expirer_init None
       (Expirer_new\<lparr>expirations := [(''A'', sample_expiration)],
                     x_storage := Some [sample_expiration]\<rparr>)
     = (Fulfilled (),
        \<lparr>expirations = [(''A'', sample_expiration)], x_cached = [], initialized = True,
         x_listening = True, x_storage = Some [sample_expiration], x_persisting = 0,
         x_events = [],
         x_logged = [RESTORE_WILL_OVERRIDE, RESTORE_WILL_OVERRIDE]\<rparr>)"
  using restore_conflict_refused [where
          s = "JsonRpcHistory_new\<lparr>records := [(7, sample_record)], h_storage := Some [sample_record]\<rparr>"
          and persisted = "[sample_record]"
          and x = "Expirer_new\<lparr>expirations := [(''A'', sample_expiration)],
                                 x_storage := Some [sample_expiration]\<rparr>"
          and xpersisted = "[sample_expiration]"]
  by (simp add: JsonRpcHistory_new_def Expirer_new_def)

section \<open>The pending view\<close>

text \<open>
  Claim C7. For every state of the records, \<^verbatim>\<open>pending\<close> is, in the order of the map, one
  entry \<open>{topic, request, chainId}\<close> for each record that has no response, and nothing for a
  record that has one. It is a function of the records as they are when it is read.
\<close>

theorem History_pending_view:
  "JsonRpcHistory_pending formatJsonRpcRequest s =
     map (\<lambda>r. \<lparr>ev_topic = rec_topic r,
                ev_request = formatJsonRpcRequest (arg_method (rec_request r))
                               (arg_params (rec_request r)) (rec_id r),
                ev_chainId = rec_chainId r\<rparr>)
       (filter (\<lambda>r. rec_response r = None) (map snd (records s)))"
  by (simp add: JsonRpcHistory_pending_def JsonRpcHistory_values_def fold_pending_step)

theorem History_pending_view_witness:
  "JsonRpcHistory_pending sample_format
     (JsonRpcHistory_new\<lparr>records :=
        [(7, sample_record),
         (8, sample_record\<lparr>rec_id := 8, rec_response := Some \<lparr>result = Some JNull, error = None\<rparr>\<rparr>),
         (9, sample_record\<lparr>rec_id := 9, rec_topic := ''B''\<rparr>)]\<rparr>)
   = [\<lparr>ev_topic = ''A'',
       ev_request = \<lparr>req_id = 7, req_jsonrpc = ''2.0'', req_method = ''personal_sign'',
                     req_params = Some (JArr [JStr ''0xdeadbeef''])\<rparr>,
       ev_chainId = None\<rparr>,
      \<lparr>ev_topic = ''B'',
       ev_request = \<lparr>req_id = 9, req_jsonrpc = ''2.0'', req_method = ''personal_sign'',
                     req_params = Some (JArr [JStr ''0xdeadbeef''])\<rparr>,
       ev_chainId = None\<rparr>]"
  using History_pending_view [where formatJsonRpcRequest = sample_format
          and s = "JsonRpcHistory_new\<lparr>records :=
        [(7, sample_record),
         (8, sample_record\<lparr>rec_id := 8, rec_response := Some \<lparr>result = Some JNull, error = None\<rparr>\<rparr>),
         (9, sample_record\<lparr>rec_id := 9, rec_topic := ''B''\<rparr>)]\<rparr>"]
  by (simp add: JsonRpcHistory_new_def sample_record_def sample_format_def)

section \<open>Expiry: eager and swept\<close>




section \<open>Publisher: what a retry sends\<close>

text \<open>
  Claim C9. Every request the heartbeat sweep hands to the transport has no prompt field,
  whatever prompt the queued entry records. The request of \<^verbatim>\<open>publish\<close> itself always has
  the field (with the caller's prompt, or false). So the retry of an entry that \<^verbatim>\<open>publish\<close>
  has queued is the original request without its prompt field, and differs from it.
\<close>

theorem checkQueue_omits_prompt:
  "sent (Publisher_checkQueue imp provider s)
     = sent s @ map (\<lambda>p. \<lparr>rq_method = publish (getRelayProtocolApi imp (protocol (p_relay (p_opts p)))),
                           rq_params = \<lparr>pp_topic = p_topic p, pp_message = p_message p,
                                        pp_ttl = p_ttl (p_opts p), pp_prompt = Absent\<rparr>\<rparr>)
                  (map snd (queue s))
   \<and> (case Publisher_publish_submit imp topic message opts s0 of
        (hash, params', request, s2) \<Rightarrow>
            pp_prompt (rq_params request) = Present (Some (prompt_or_false opts))
          \<and> (hash, params') \<in> set (queue s2)
          \<and> (hash, params', request\<lparr>rq_params := (rq_params request)\<lparr>pp_prompt := Absent\<rparr>\<rparr>)
               \<in> set (fst (Publisher_checkQueue_submit imp s2))
          \<and> request\<lparr>rq_params := (rq_params request)\<lparr>pp_prompt := Absent\<rparr>\<rparr> \<noteq> request)"
proof -
  have a: "sent (Publisher_checkQueue imp provider s)
     = sent s @ map (\<lambda>p. \<lparr>rq_method = publish (getRelayProtocolApi imp (protocol (p_relay (p_opts p)))),
                           rq_params = \<lparr>pp_topic = p_topic p, pp_message = p_message p,
                                        pp_ttl = p_ttl (p_opts p), pp_prompt = Absent\<rparr>\<rparr>)
                  (map snd (queue s))"
    by (simp add: Publisher_checkQueue_def Publisher_checkQueue_submit_def checkQueue_submit_fold
          retry_request_eq comp_def)
  let ?h = "hashMessage imp message"
  let ?p = "\<lparr>p_topic = topic, p_message = message,
        p_opts = \<lparr>p_ttl = ttl_or_default imp opts, p_relay = getRelayProtocolName imp opts,
                  p_prompt = prompt_or_false opts\<rparr>\<rparr>"
  have mem: "(?h, ?p) \<in> set (AList.update ?h ?p (queue s0))"
    by (rule map_of_SomeD) (simp add: update_conv')
  have b: "(case Publisher_publish_submit imp topic message opts s0 of
        (hash, params', request, s2) \<Rightarrow>
            pp_prompt (rq_params request) = Present (Some (prompt_or_false opts))
          \<and> (hash, params') \<in> set (queue s2)
          \<and> (hash, params', request\<lparr>rq_params := (rq_params request)\<lparr>pp_prompt := Absent\<rparr>\<rparr>)
               \<in> set (fst (Publisher_checkQueue_submit imp s2))
          \<and> request\<lparr>rq_params := (rq_params request)\<lparr>pp_prompt := Absent\<rparr>\<rparr> \<noteq> request)"
  proof -
    let ?s2 = "snd (snd (snd (Publisher_publish_submit imp topic message opts s0)))"
    have q: "(?h, ?p) \<in> set (queue ?s2)"
      using mem by (simp add: publish_submit_eq rpcPublish_Some)
    have "(hashMessage imp (p_message ?p), ?p, retry_request imp ?p)
            \<in> set (fst (Publisher_checkQueue_submit imp ?s2))"
      by (rule checkQueue_submit_inflight [OF q])
    then show ?thesis
      using q by (simp add: publish_submit_eq rpcPublish_Some retry_request_eq)
  qed
  show ?thesis using a b by blast
qed

theorem checkQueue_omits_prompt_witness:
  "prompt sample_opts = Some True
   \<and> sent (Publisher_checkQueue sample_imports provider_accepts
       (snd (Publisher_publish sample_imports provider_fails ''topic'' ''hello'' (Some sample_opts)
               Publisher_new)))
     = [\<lparr>rq_method = ''waku_publish'',
         rq_params = \<lparr>pp_topic = ''topic'', pp_message = ''hello'', pp_ttl = 21600,
                      pp_prompt = Present (Some True)\<rparr>\<rparr>,
        \<lparr>rq_method = ''waku_publish'',
         rq_params = \<lparr>pp_topic = ''topic'', pp_message = ''hello'', pp_ttl = 21600,
                      pp_prompt = Absent\<rparr>\<rparr>]"
  using checkQueue_omits_prompt [where imp = sample_imports and provider = provider_accepts
          and s = "snd (Publisher_publish sample_imports provider_fails ''topic'' ''hello''
                          (Some sample_opts) Publisher_new)"
          and topic = "''topic''" and message = "''hello''" and opts = "Some sample_opts"
          and ?s0.0 = Publisher_new]
  by (simp add: Publisher_publish_def publish_submit_eq rpcPublish_Some
        Publisher_publish_settle_def sample_imports_def sample_opts_def provider_fails_def
        Publisher_new_def ttl_or_default_def prompt_or_false_def)

text \<open>
  Claim C10. When \<^verbatim>\<open>opts.ttl\<close> is 0 or missing (or \<^verbatim>\<open>opts\<close> is), the queued entry and
  the request to the relay both carry \<^verbatim>\<open>PUBLISHER_DEFAULT_TTL\<close>. So, the default not being
  0, no call of \<^verbatim>\<open>publish\<close> queues or sends a TTL of 0.
\<close>

theorem publish_zero_ttl_is_default:
  "((opts = None \<or> (\<exists>opt. opts = Some opt \<and> (ttl opt = None \<or> ttl opt = Some 0))) \<longrightarrow>
      (case Publisher_publish_submit imp topic message opts s of
         (hash, params', request, s2) \<Rightarrow>
             p_ttl (p_opts params') = PUBLISHER_DEFAULT_TTL imp
           \<and> map_of (queue s2) hash = Some params'
           \<and> pp_ttl (rq_params request) = PUBLISHER_DEFAULT_TTL imp
           \<and> sent s2 = sent s @ [request]))
   \<and> (PUBLISHER_DEFAULT_TTL imp \<noteq> 0 \<longrightarrow>
      (case Publisher_publish_submit imp topic message opts s of
         (hash, params', request, s2) \<Rightarrow>
             p_ttl (p_opts params') \<noteq> 0 \<and> pp_ttl (rq_params request) \<noteq> 0))"
  by (auto simp: publish_submit_eq rpcPublish_Some ttl_or_default_def update_conv'
        split: option.splits)

theorem publish_zero_ttl_is_default_witness:
  "ttl sample_opts = Some 0
   \<and> PUBLISHER_DEFAULT_TTL sample_imports \<noteq> 0
   \<and> Publisher_publish_submit sample_imports ''topic'' ''hello'' (Some sample_opts) Publisher_new
     = (''olleh'',
        \<lparr>p_topic = ''topic'', p_message = ''hello'',
         p_opts = \<lparr>p_ttl = 21600, p_relay = \<lparr>protocol = ''waku'', data = None\<rparr>,
                   p_prompt = True\<rparr>\<rparr>,
        \<lparr>rq_method = ''waku_publish'',
         rq_params = \<lparr>pp_topic = ''topic'', pp_message = ''hello'', pp_ttl = 21600,
                      pp_prompt = Present (Some True)\<rparr>\<rparr>,
        \<lparr>queue = [(''olleh'',
                   \<lparr>p_topic = ''topic'', p_message = ''hello'',
                    p_opts = \<lparr>p_ttl = 21600, p_relay = \<lparr>protocol = ''waku'', data = None\<rparr>,
                              p_prompt = True\<rparr>\<rparr>)],
         sent = [\<lparr>rq_method = ''waku_publish'',
                  rq_params = \<lparr>pp_topic = ''topic'', pp_message = ''hello'', pp_ttl = 21600,
                               pp_prompt = Present (Some True)\<rparr>\<rparr>],
         p_logged = []\<rparr>)"
  using publish_zero_ttl_is_default [where imp = sample_imports and topic = "''topic''"
          and message = "''hello''" and opts = "Some sample_opts" and s = Publisher_new]
  by (simp add: publish_submit_eq rpcPublish_Some sample_imports_def sample_opts_def
        Publisher_new_def ttl_or_default_def prompt_or_false_def)

end
